theory Spec2Isabelle
  imports Main
begin

section \<open>The auth slice (lib/redux/features/auth/authSlice)\<close>

text \<open>
  The slice keeps one \<open>AuthState\<close> object. Its reducers are written in the mutating
  Immer style; each becomes a function from the state before to the state after, with
  the assignments applied in the order of the source. A TypeScript value that may be
  \<open>null\<close> or \<open>undefined\<close> is an \<open>option\<close>: both read as falsy where the slice and
  the guard test them, and nothing in the modelled code tells them apart.
\<close>

subsection \<open>Types\<close>

record User =
  userId :: string
  email :: string
  name :: string
  skillLevel :: "string option"
  preferredLanguages :: "string list option"

datatype Status = Idle | Loading | Succeeded | Failed

record AuthState =
  user :: "User option"
  isAuthenticated :: bool
  status :: Status
  error :: "string option"

definition initialState :: AuthState where
  "initialState = \<lparr>user = None, isAuthenticated = False, status = Idle, error = None\<rparr>"

subsection \<open>Values the thunks hand to the reducers\<close>

text \<open>
  The body the backend sends for \<open>GET /auth/me\<close> is \<open>{authenticated, user?}\<close>. The value
  \<open>axios.get\<close> resolves with is not that body but the response object around it, whose
  own properties are \<open>data\<close>, \<open>status\<close>, \<open>statusText\<close>, \<open>headers\<close>, \<open>config\<close> and
  \<open>request\<close>.
\<close>

record MeData =
  authenticated :: bool
  me_user :: "User option"

record AxiosResponse =
  data :: MeData
  http_status :: nat

text \<open>
  A fulfilled \<open>auth/checkStatus\<close> action carries whatever the payload creator returned:
  the body (\<open>response.data\<close>) or a whole response object.
\<close>

datatype CheckPayload = Body MeData | Response AxiosResponse

text \<open>
  Property reads \<open>payload.authenticated\<close> and \<open>payload.user\<close>. A response object has
  neither property, so both reads give \<open>undefined\<close> there.
\<close>

fun payload_authenticated :: "CheckPayload \<Rightarrow> bool option" where
  "payload_authenticated (Body d) = Some (authenticated d)"
| "payload_authenticated (Response r) = None"

fun payload_user :: "CheckPayload \<Rightarrow> User option" where
  "payload_user (Body d) = me_user d"
| "payload_user (Response r) = None"

text \<open>JavaScript truthiness of an optional boolean, and \<open>!!x\<close> for an optional object.\<close>

fun truthy :: "bool option \<Rightarrow> bool" where
  "truthy None = False"
| "truthy (Some b) = b"

fun present :: "'a option \<Rightarrow> bool" where
  "present None = False"
| "present (Some x) = True"

text \<open>
  The value passed to \<open>rejectWithValue\<close>: \<open>error.response?.data || {message: error.message}\<close>.
  Only its \<open>message\<close> property is read, and an error body need not have one.
\<close>

record RejectValue =
  message :: "string option"

text \<open>The body of a successful login or registration, \<open>{user}\<close>.\<close>

record UserPayload =
  payload_user_field :: "User option"

subsection \<open>Actions\<close>

text \<open>
  A rejected action of \<open>createAsyncThunk\<close> has \<open>action.payload\<close> (the value given to
  \<open>rejectWithValue\<close>, absent when the creator threw) and \<open>action.error.message\<close>.
  \<open>CheckRejected\<close> carries the former, which is all its reducer reads;
  \<open>LoginRejected\<close> and \<open>RegisterRejected\<close> carry the latter.
\<close>

datatype Action =
    ClearError
  | SetAuthenticated bool
  | ManualLogout
  | CheckPending
  | CheckFulfilled CheckPayload
  | CheckRejected "RejectValue option"
  | LoginPending
  | LoginFulfilled UserPayload
  | LoginRejected "string option"
  | RegisterPending
  | RegisterFulfilled UserPayload
  | RegisterRejected "string option"
  | LogoutPending
  | LogoutFulfilled
  | LogoutRejected

text \<open>\<open>m || fallback\<close> on an optional string: the empty string is falsy too.\<close>

fun or_default :: "string option \<Rightarrow> string \<Rightarrow> string" where
  "or_default None d = d"
| "or_default (Some m) d = (if m = [] then d else m)"

subsection \<open>Reducers\<close>

definition clearError :: "AuthState \<Rightarrow> AuthState" where
  "clearError s = s\<lparr>error := None\<rparr>"

definition setAuthenticated :: "AuthState \<Rightarrow> bool \<Rightarrow> AuthState" where
  "setAuthenticated s p =
     (let s1 = s\<lparr>isAuthenticated := p\<rparr>
      in if p then s1 else s1\<lparr>user := None\<rparr>)"

definition manualLogout :: "AuthState \<Rightarrow> AuthState" where
  "manualLogout s = s\<lparr>isAuthenticated := False, user := None, status := Idle\<rparr>"

definition checkAuthStatus_pending :: "AuthState \<Rightarrow> AuthState" where
  "checkAuthStatus_pending s = s\<lparr>status := Loading\<rparr>"

definition checkAuthStatus_fulfilled :: "AuthState \<Rightarrow> CheckPayload \<Rightarrow> AuthState" where
  "checkAuthStatus_fulfilled s p =
     s\<lparr>status := Succeeded,
       isAuthenticated := (truthy (payload_authenticated p) \<or> present (payload_user p)),
       user := payload_user p\<rparr>"

definition checkAuthStatus_rejected :: "AuthState \<Rightarrow> RejectValue option \<Rightarrow> AuthState" where
  "checkAuthStatus_rejected s p =
     s\<lparr>status := Failed,
       error := (case p of Some v \<Rightarrow> message v
                 | None \<Rightarrow> Some ''Authentication check failed''),
       isAuthenticated := False,
       user := None\<rparr>"

definition loginUser_pending :: "AuthState \<Rightarrow> AuthState" where
  "loginUser_pending s = s\<lparr>status := Loading, error := None\<rparr>"

definition loginUser_fulfilled :: "AuthState \<Rightarrow> UserPayload \<Rightarrow> AuthState" where
  "loginUser_fulfilled s p =
     s\<lparr>status := Succeeded, isAuthenticated := True,
       user := payload_user_field p, error := None\<rparr>"

definition loginUser_rejected :: "AuthState \<Rightarrow> string option \<Rightarrow> AuthState" where
  "loginUser_rejected s m = s\<lparr>status := Failed, error := Some (or_default m ''Login failed'')\<rparr>"

definition registerUser_pending :: "AuthState \<Rightarrow> AuthState" where
  "registerUser_pending s = s\<lparr>status := Loading\<rparr>"

definition registerUser_fulfilled :: "AuthState \<Rightarrow> UserPayload \<Rightarrow> AuthState" where
  "registerUser_fulfilled s p =
     s\<lparr>status := Succeeded, isAuthenticated := True, user := payload_user_field p\<rparr>"

definition registerUser_rejected :: "AuthState \<Rightarrow> string option \<Rightarrow> AuthState" where
  "registerUser_rejected s m =
     s\<lparr>status := Failed, error := Some (or_default m ''Registration failed'')\<rparr>"

definition logoutUser_pending :: "AuthState \<Rightarrow> AuthState" where
  "logoutUser_pending s = s\<lparr>isAuthenticated := False, user := None, status := Loading\<rparr>"

definition logoutUser_fulfilled :: "AuthState \<Rightarrow> AuthState" where
  "logoutUser_fulfilled s =
     s\<lparr>isAuthenticated := False, user := None, status := Idle, error := None\<rparr>"

definition logoutUser_rejected :: "AuthState \<Rightarrow> AuthState" where
  "logoutUser_rejected s = s\<lparr>isAuthenticated := False, user := None, status := Idle\<rparr>"

text \<open>The slice reducer: one case per action type.\<close>

fun authReducer :: "AuthState \<Rightarrow> Action \<Rightarrow> AuthState" where
  "authReducer s ClearError = clearError s"
| "authReducer s (SetAuthenticated p) = setAuthenticated s p"
| "authReducer s ManualLogout = manualLogout s"
| "authReducer s CheckPending = checkAuthStatus_pending s"
| "authReducer s (CheckFulfilled p) = checkAuthStatus_fulfilled s p"
| "authReducer s (CheckRejected p) = checkAuthStatus_rejected s p"
| "authReducer s LoginPending = loginUser_pending s"
| "authReducer s (LoginFulfilled p) = loginUser_fulfilled s p"
| "authReducer s (LoginRejected m) = loginUser_rejected s m"
| "authReducer s RegisterPending = registerUser_pending s"
| "authReducer s (RegisterFulfilled p) = registerUser_fulfilled s p"
| "authReducer s (RegisterRejected m) = registerUser_rejected s m"
| "authReducer s LogoutPending = logoutUser_pending s"
| "authReducer s LogoutFulfilled = logoutUser_fulfilled s"
| "authReducer s LogoutRejected = logoutUser_rejected s"

text \<open>The store after a sequence of dispatched actions.\<close>

definition dispatchAll :: "AuthState \<Rightarrow> Action list \<Rightarrow> AuthState" where
  "dispatchAll s as = foldl authReducer s as"

section \<open>The thunks\<close>

text \<open>
  A payload creator of \<open>createAsyncThunk\<close> ends in one of three ways: it returns a
  value (the thunk dispatches \<open>fulfilled\<close> with it), it returns \<open>rejectWithValue v\<close>
  (\<open>rejected\<close> with payload \<open>v\<close>), or it throws (\<open>rejected\<close> with no payload).
\<close>

datatype ('v, 'r) Outcome = Return 'v | RejectWithValue 'r | Throw string

text \<open>
  A request either resolves with a response or rejects with an error, of which the
  thunks read \<open>error.response?.data\<close> (absent without a response or with a falsy body)
  and \<open>error.message\<close>.
\<close>

record NetError =
  response_data :: "RejectValue option"
  error_message :: string

datatype 'a Settled = Resolved 'a | Rejected NetError

definition reject_value :: "NetError \<Rightarrow> RejectValue" where
  "reject_value e =
     (case response_data e of Some d \<Rightarrow> d | None \<Rightarrow> \<lparr>message = Some (error_message e)\<rparr>)"

subsection \<open>logoutUser\<close>

text \<open>
  The creator awaits \<open>GET /auth/logoutExtension\<close>. On success it removes the
  \<open>auth_last_checked\<close> entry of the local storage and returns \<open>null\<close>; its \<open>catch\<close>
  block returns \<open>null\<close> as well.
\<close>

type_synonym Storage = "string \<Rightarrow> string option"

definition logoutUser :: "'a Settled \<Rightarrow> Storage \<Rightarrow> (unit, unit) Outcome \<times> Storage" where
  "logoutUser net ls =
     (case net of
        Resolved r \<Rightarrow> (Return (), ls(''auth_last_checked'' := None))
      | Rejected e \<Rightarrow> (Return (), ls))"

fun logoutUser_settled :: "(unit, unit) Outcome \<Rightarrow> Action" where
  "logoutUser_settled (Return v) = LogoutFulfilled"
| "logoutUser_settled (RejectWithValue v) = LogoutRejected"
| "logoutUser_settled (Throw m) = LogoutRejected"

text \<open>
  Dispatching the thunk: \<open>pending\<close> is dispatched at once, the terminal action when
  the request has settled. The states the store passes through, in order.
\<close>

definition logoutUser_dispatch :: "AuthState \<Rightarrow> 'a Settled \<Rightarrow> Storage \<Rightarrow> AuthState list" where
  "logoutUser_dispatch s net ls =
     (let s1 = authReducer s LogoutPending;
          s2 = authReducer s1 (logoutUser_settled (fst (logoutUser net ls)))
      in [s1, s2])"

subsection \<open>checkAuthStatus and the shared promise\<close>

text \<open>
  The module variable \<open>authCheckPromise\<close> holds the promise of the request in flight,
  or \<open>null\<close>. Promises are named by numbers; the number of requests made so far names
  the next one. JavaScript runs one task at a time, so a call of the creator runs
  without interruption up to its \<open>await\<close>, where it is suspended: either at
  \<open>return await authCheckPromise\<close>, having found a promise in the variable, or at
  \<open>const response = await authCheckPromise\<close>, having made the request itself.
\<close>

type_synonym Promise = nat

datatype Await = AwaitShared Promise | AwaitOwn Promise

fun awaited :: "Await \<Rightarrow> Promise" where
  "awaited (AwaitShared p) = p"
| "awaited (AwaitOwn p) = p"

record Client =
  authCheckPromise :: "Promise option"
  requests :: nat
  suspended :: "(nat \<times> Await) list"

definition newClient :: Client where
  "newClient = \<lparr>authCheckPromise = None, requests = 0, suspended = []\<rparr>"

text \<open>Caller \<open>c\<close> dispatches the thunk: the creator runs up to its \<open>await\<close>.\<close>

definition checkAuthStatus_call :: "nat \<Rightarrow> Client \<Rightarrow> Client" where
  "checkAuthStatus_call c cl =
     (case authCheckPromise cl of
        Some p \<Rightarrow> cl\<lparr>suspended := suspended cl @ [(c, AwaitShared p)]\<rparr>
      | None \<Rightarrow>
          cl\<lparr>authCheckPromise := Some (requests cl),
             requests := Suc (requests cl),
             suspended := suspended cl @ [(c, AwaitOwn (requests cl))]\<rparr>)"

text \<open>
  A suspended creator resumes when its promise has settled. Resumed at the first
  \<open>await\<close> it returns the awaited value as it is. Resumed at the second it resets the
  variable and returns \<open>response.data\<close>. A rejection lands in the \<open>catch\<close> block from
  either place: the variable is reset and the creator rejects with a value. The second
  component is the variable afterwards.
\<close>

fun checkAuthStatus_resume ::
  "AxiosResponse Settled \<Rightarrow> Await \<Rightarrow> Promise option
     \<Rightarrow> (CheckPayload, RejectValue) Outcome \<times> Promise option" where
  "checkAuthStatus_resume (Resolved r) (AwaitShared p) v = (Return (Response r), v)"
| "checkAuthStatus_resume (Resolved r) (AwaitOwn p) v = (Return (Body (data r)), None)"
| "checkAuthStatus_resume (Rejected e) w v = (RejectWithValue (reject_value e), None)"

text \<open>
  When promise \<open>p\<close> settles, the creators suspended on it resume one after the other
  in the order in which they were suspended; the others stay suspended.
\<close>

fun resume_all ::
  "Promise \<Rightarrow> AxiosResponse Settled \<Rightarrow> (nat \<times> Await) list \<Rightarrow> Promise option
     \<Rightarrow> (nat \<times> (CheckPayload, RejectValue) Outcome) list \<times> (nat \<times> Await) list \<times> Promise option"
  where
  "resume_all p r [] v = ([], [], v)"
| "resume_all p r ((c, w) # ws) v =
     (if awaited w = p then
        (case checkAuthStatus_resume r w v of
           (out, v1) \<Rightarrow>
             (case resume_all p r ws v1 of
                (outs, rest, v2) \<Rightarrow> ((c, out) # outs, rest, v2)))
      else
        (case resume_all p r ws v of
           (outs, rest, v2) \<Rightarrow> (outs, (c, w) # rest, v2)))"

definition settle ::
  "Promise \<Rightarrow> AxiosResponse Settled \<Rightarrow> Client
     \<Rightarrow> (nat \<times> (CheckPayload, RejectValue) Outcome) list \<times> Client" where
  "settle p r cl =
     (case resume_all p r (suspended cl) (authCheckPromise cl) of
        (outs, rest, v) \<Rightarrow> (outs, cl\<lparr>authCheckPromise := v, suspended := rest\<rparr>))"

fun checkAuthStatus_settled :: "(CheckPayload, RejectValue) Outcome \<Rightarrow> Action" where
  "checkAuthStatus_settled (Return v) = CheckFulfilled v"
| "checkAuthStatus_settled (RejectWithValue v) = CheckRejected (Some v)"
| "checkAuthStatus_settled (Throw m) = CheckRejected None"

section \<open>The route guard (components/auth/withAuth)\<close>

text \<open>
  \<open>AuthGuard\<close> reads \<open>isAuthenticated\<close> and \<open>status\<close> from the store and keeps one
  piece of local state, \<open>isChecking\<close>, initially \<open>true\<close>. What it returns depends on
  these three values only.
\<close>

datatype View = Checking | Wrapped | PleaseLogIn

datatype Navigation = Replace string | Push string

record GuardState =
  isChecking :: bool
  lastDeps :: "(bool \<times> Status) option"

definition mounting :: GuardState where
  "mounting = \<lparr>isChecking = True, lastDeps = None\<rparr>"

definition AuthGuard_render :: "AuthState \<Rightarrow> GuardState \<Rightarrow> View" where
  "AuthGuard_render a g =
     (if status a = Loading \<or> isChecking g then Checking
      else if isAuthenticated a then Wrapped
      else PleaseLogIn)"

text \<open>The body of the effect: the new local state and the navigation calls it makes.\<close>

definition AuthGuard_effect :: "AuthState \<Rightarrow> GuardState \<Rightarrow> GuardState \<times> Navigation list" where
  "AuthGuard_effect a g =
     (if status a \<noteq> Loading then
        (g\<lparr>isChecking := False\<rparr>,
         if status a = Succeeded \<and> \<not> isAuthenticated a
         then [Replace ''/auth/login''] else [])
      else (g, []))"

text \<open>
  One store state seen by the mounted component. React renders, then runs the effect
  if a dependency differs from the previous render's (always after the first render);
  the dependencies are \<open>isAuthenticated\<close>, \<open>status\<close> and the router object, which is the
  same object in every render. If the effect changed \<open>isChecking\<close> the component
  renders once more, with unchanged dependencies. \<open>lastDeps\<close> records the dependencies
  of the previous render. The result is the new local state, the views rendered and the
  navigation calls made.
\<close>

definition AuthGuard_observe ::
  "GuardState \<Rightarrow> AuthState \<Rightarrow> GuardState \<times> View list \<times> Navigation list" where
  "AuthGuard_observe g a =
     (if lastDeps g = Some (isAuthenticated a, status a) then
        (g, [AuthGuard_render a g], [])
      else
        (case AuthGuard_effect a g of
           (g1, navs) \<Rightarrow>
             (g1\<lparr>lastDeps := Some (isAuthenticated a, status a)\<rparr>,
              if isChecking g1 = isChecking g then [AuthGuard_render a g]
              else [AuthGuard_render a g, AuthGuard_render a g1],
              navs)))"

fun AuthGuard_run ::
  "GuardState \<Rightarrow> AuthState list \<Rightarrow> GuardState \<times> View list \<times> Navigation list" where
  "AuthGuard_run g [] = (g, [], [])"
| "AuthGuard_run g (a # as) =
     (case AuthGuard_observe g a of
        (g1, vs1, ns1) \<Rightarrow>
          (case AuthGuard_run g1 as of
             (g2, vs2, ns2) \<Rightarrow> (g2, vs1 @ vs2, ns1 @ ns2)))"

text \<open>The components of a result of \<open>AuthGuard_observe\<close> or \<open>AuthGuard_run\<close>.\<close>

abbreviation guard_of :: "GuardState \<times> View list \<times> Navigation list \<Rightarrow> GuardState" where
  "guard_of x \<equiv> fst x"

abbreviation views_of :: "GuardState \<times> View list \<times> Navigation list \<Rightarrow> View list" where
  "views_of x \<equiv> fst (snd x)"

abbreviation navigations_of ::
  "GuardState \<times> View list \<times> Navigation list \<Rightarrow> Navigation list" where
  "navigations_of x \<equiv> snd (snd x)"

section \<open>Notions the stated properties use\<close>

text \<open>The state in which the guard redirects: the check has succeeded and found no session.\<close>

definition resolvedUnauthenticated :: "AuthState \<Rightarrow> bool" where
  "resolvedUnauthenticated a = (status a = Succeeded \<and> \<not> isAuthenticated a)"

text \<open>
  The number of times a sequence of observed states enters that state; \<open>inside\<close> says
  whether the state observed before the sequence was already in it.
\<close>

fun entries :: "bool \<Rightarrow> AuthState list \<Rightarrow> nat" where
  "entries inside [] = 0"
| "entries inside (a # as) =
     (if resolvedUnauthenticated a \<and> \<not> inside then 1 else 0)
       + entries (resolvedUnauthenticated a) as"

text \<open>
  Actions that respect the contract between \<open>isAuthenticated\<close> and \<open>user\<close>: every
  action but \<open>setAuthenticated(true)\<close>, a fulfilled status check that reports a session
  without a user, and a fulfilled login or registration without a user.
\<close>

fun respects_contract :: "Action \<Rightarrow> bool" where
  "respects_contract (SetAuthenticated p) = (p = False)"
| "respects_contract (CheckFulfilled p) =
     (if truthy (payload_authenticated p) then present (payload_user p) else True)"
| "respects_contract (LoginFulfilled p) = present (payload_user_field p)"
| "respects_contract (RegisterFulfilled p) = present (payload_user_field p)"
| "respects_contract a = True"

text \<open>
  The local state of a guard is settled when \<open>isChecking\<close> has been cleared unless
  the guard has so far rendered nothing but \<open>loading\<close> states.
\<close>

definition settled_guard :: "GuardState \<Rightarrow> bool" where
  "settled_guard g =
     (case lastDeps g of None \<Rightarrow> True | Some (b, st) \<Rightarrow> st = Loading \<or> \<not> isChecking g)"

text \<open>The user of the spec's login scenario.\<close>

definition scenarioUser :: User where
  "scenarioUser =
     \<lparr>userId = ''1'', email = ''a@b.com'', name = ''A'',
      skillLevel = None, preferredLanguages = None\<rparr>"

section \<open>Properties of the reducers\<close>

text \<open>
  C2. Whatever the state before, once \<open>auth/login\<close> fulfils with payload \<open>{user}\<close> the
  store is authenticated, holds exactly the payload's user, has status \<open>succeeded\<close> and
  no error.
\<close>

theorem login_fulfilled_sets_session:
  "isAuthenticated (authReducer s (LoginFulfilled p)) = True
   \<and> user (authReducer s (LoginFulfilled p)) = payload_user_field p
   \<and> status (authReducer s (LoginFulfilled p)) = Succeeded
   \<and> error (authReducer s (LoginFulfilled p)) = None"
  by (simp add: loginUser_fulfilled_def)

text \<open>
  C4. When \<open>auth/checkStatus\<close> fulfils with a body \<open>{authenticated, user?}\<close> the store
  has status \<open>succeeded\<close>, is authenticated exactly when the body says so or carries a
  user, and holds the body's user (none when the body has none). When it rejects, the
  store has status \<open>failed\<close>, is not authenticated, holds no user, and its error is the
  message of the rejection value (the fixed text when the action carries no value). For
  a request that failed with error \<open>e\<close>, that is the message of the value the creator
  rejects with, from either of its two \<open>await\<close> points.
\<close>

theorem checkStatus_settles_store:
  "status (authReducer s (CheckFulfilled (Body d))) = Succeeded
   \<and> isAuthenticated (authReducer s (CheckFulfilled (Body d)))
       = (authenticated d \<or> present (me_user d))
   \<and> user (authReducer s (CheckFulfilled (Body d))) = me_user d
   \<and> status (authReducer s (CheckRejected r)) = Failed
   \<and> isAuthenticated (authReducer s (CheckRejected r)) = False
   \<and> user (authReducer s (CheckRejected r)) = None
   \<and> error (authReducer s (CheckRejected (Some \<lparr>message = m\<rparr>))) = m
   \<and> error (authReducer s (CheckRejected None)) = Some ''Authentication check failed''
   \<and> error (authReducer s
         (checkAuthStatus_settled (fst (checkAuthStatus_resume (Rejected e) w v))))
       = message (reject_value e)"
  by (simp add: checkAuthStatus_fulfilled_def checkAuthStatus_rejected_def)

text \<open>
  C8, as the spec states it, fails: only \<open>auth/login\<close> clears the error when it starts.
  After a failed login the recorded message survives the start of a status check and
  the start of a registration.
\<close>

theorem pending_keeps_error_counterexample:
  "error (dispatchAll initialState [LoginPending, LoginRejected None, CheckPending])
     = Some ''Login failed''
   \<and> error (dispatchAll initialState [LoginPending, LoginRejected None, RegisterPending])
     = Some ''Login failed''"
  by (simp add: dispatchAll_def initialState_def loginUser_pending_def loginUser_rejected_def
      checkAuthStatus_pending_def registerUser_pending_def)

text \<open>
  C8, amended. Entering the pending phase of \<open>login\<close> clears the error; entering the
  pending phase of \<open>checkStatus\<close> or \<open>register\<close> sets the status to \<open>loading\<close> and
  leaves the error as it was.
\<close>

theorem pending_error_field:
  "error (authReducer s LoginPending) = None
   \<and> error (authReducer s CheckPending) = error s
   \<and> error (authReducer s RegisterPending) = error s
   \<and> status (authReducer s LoginPending) = Loading
   \<and> status (authReducer s CheckPending) = Loading
   \<and> status (authReducer s RegisterPending) = Loading"
  by (simp add: loginUser_pending_def checkAuthStatus_pending_def registerUser_pending_def)

text \<open>
  C10. The forced logout clears the session and sets the status to \<open>idle\<close> but leaves
  the error field alone, whereas a fulfilled \<open>auth/logout\<close> also clears the error.
\<close>

theorem manualLogout_keeps_error:
  "isAuthenticated (authReducer s ManualLogout) = False
   \<and> user (authReducer s ManualLogout) = None
   \<and> status (authReducer s ManualLogout) = Idle
   \<and> error (authReducer s ManualLogout) = error s
   \<and> error (authReducer s LogoutFulfilled) = None"
  by (simp add: manualLogout_def logoutUser_fulfilled_def)

text \<open>
  C3. Whatever the state before, the \<open>pending\<close> action of \<open>auth/logout\<close> already
  clears \<open>isAuthenticated\<close> and \<open>user\<close>. The payload creator returns normally whether
  the request resolves or rejects, so the thunk always fulfils, and both states the
  store passes through are cleared. The \<open>rejected\<close> reducer, were it ever to run,
  clears the session from any state as well.
\<close>

theorem logout_always_clears:
  "isAuthenticated (authReducer s LogoutPending) = False
   \<and> user (authReducer s LogoutPending) = None
   \<and> fst (logoutUser net ls) = Return ()
   \<and> logoutUser_settled (fst (logoutUser net ls)) = LogoutFulfilled
   \<and> map isAuthenticated (logoutUser_dispatch s net ls) = [False, False]
   \<and> map user (logoutUser_dispatch s net ls) = [None, None]
   \<and> isAuthenticated (authReducer s' LogoutRejected) = False
   \<and> user (authReducer s' LogoutRejected) = None"
  by (cases net)
     (simp_all add: logoutUser_def logoutUser_dispatch_def logoutUser_pending_def
        logoutUser_fulfilled_def logoutUser_rejected_def)

section \<open>The contract between isAuthenticated and user\<close>

lemma respects_contract_step:
  assumes "isAuthenticated s \<longrightarrow> present (user s)" and "respects_contract a"
  shows "isAuthenticated (authReducer s a) \<longrightarrow> present (user (authReducer s a))"
  using assms
  by (cases a)
     (auto simp: clearError_def setAuthenticated_def manualLogout_def
        checkAuthStatus_pending_def checkAuthStatus_fulfilled_def checkAuthStatus_rejected_def
        loginUser_pending_def loginUser_fulfilled_def loginUser_rejected_def
        registerUser_pending_def registerUser_fulfilled_def registerUser_rejected_def
        logoutUser_pending_def logoutUser_fulfilled_def logoutUser_rejected_def
        split: if_splits)

lemma respects_contract_foldl:
  "isAuthenticated s \<longrightarrow> present (user s) \<Longrightarrow> list_all respects_contract as
   \<Longrightarrow> isAuthenticated (foldl authReducer s as) \<longrightarrow> present (user (foldl authReducer s as))"
proof (induction as arbitrary: s)
  case Nil
  then show ?case by simp
next
  case (Cons a as)
  from Cons.prems
  have "isAuthenticated (authReducer s a) \<longrightarrow> present (user (authReducer s a))"
    using respects_contract_step by simp
  with Cons show ?case by simp
qed

text \<open>
  C9, as the spec states it, fails: from the initial state the debugging action
  \<open>setAuthenticated(true)\<close> gives a store that is authenticated and has no user.
\<close>

theorem authenticated_without_user_counterexample:
  "isAuthenticated (dispatchAll initialState [SetAuthenticated True])
   \<and> user (dispatchAll initialState [SetAuthenticated True]) = None"
  by (simp add: dispatchAll_def initialState_def setAuthenticated_def)

text \<open>
  C9, amended. In every state reached from the initial state by actions other than
  \<open>setAuthenticated(true)\<close>, where each fulfilled login or registration carries a user
  and each fulfilled status check that reports a session carries one, the store is
  authenticated only if it holds a user.
\<close>

theorem authenticated_has_user:
  assumes "list_all respects_contract as"
    and "isAuthenticated (dispatchAll initialState as)"
  shows "present (user (dispatchAll initialState as))"
proof -
  have "isAuthenticated initialState \<longrightarrow> present (user initialState)"
    by (simp add: initialState_def)
  from respects_contract_foldl [OF this assms(1)] assms(2)
  show ?thesis by (simp add: dispatchAll_def)
qed

theorem authenticated_has_user_witness:
  "list_all respects_contract
     [CheckPending, LoginPending, LoginFulfilled \<lparr>payload_user_field = Some scenarioUser\<rparr>]
   \<and> isAuthenticated (dispatchAll initialState
        [CheckPending, LoginPending, LoginFulfilled \<lparr>payload_user_field = Some scenarioUser\<rparr>])
   \<and> present (user (dispatchAll initialState
        [CheckPending, LoginPending, LoginFulfilled \<lparr>payload_user_field = Some scenarioUser\<rparr>]))"
  using authenticated_has_user
    [of "[CheckPending, LoginPending, LoginFulfilled \<lparr>payload_user_field = Some scenarioUser\<rparr>]"]
  by (simp add: dispatchAll_def initialState_def checkAuthStatus_pending_def
      loginUser_pending_def loginUser_fulfilled_def)

section \<open>Properties of the route guard\<close>

lemma run_navigations_Cons:
  "navigations_of (AuthGuard_run g (a # as))
     = navigations_of (AuthGuard_observe g a)
       @ navigations_of (AuthGuard_run (guard_of (AuthGuard_observe g a)) as)"
  by (simp split: prod.splits)

lemma run_views_Cons:
  "views_of (AuthGuard_run g (a # as))
     = views_of (AuthGuard_observe g a)
       @ views_of (AuthGuard_run (guard_of (AuthGuard_observe g a)) as)"
  by (simp split: prod.splits)

lemma run_guard_Cons:
  "guard_of (AuthGuard_run g (a # as))
     = guard_of (AuthGuard_run (guard_of (AuthGuard_observe g a)) as)"
  by (simp split: prod.splits)

lemma observe_lastDeps:
  "lastDeps (guard_of (AuthGuard_observe g a)) = Some (isAuthenticated a, status a)"
  by (simp add: AuthGuard_observe_def split: prod.splits)

lemma observe_navigations:
  "navigations_of (AuthGuard_observe g a)
     = (if resolvedUnauthenticated a \<and> lastDeps g \<noteq> Some (False, Succeeded)
        then [Replace ''/auth/login''] else [])"
  by (auto simp: AuthGuard_observe_def AuthGuard_effect_def resolvedUnauthenticated_def
      split: prod.splits)

lemma resolved_deps:
  "(Some (isAuthenticated a, status a) = Some (False, Succeeded)) = resolvedUnauthenticated a"
  by (auto simp: resolvedUnauthenticated_def)

lemma run_navigations:
  "navigations_of (AuthGuard_run g as)
     = replicate (entries (lastDeps g = Some (False, Succeeded)) as) (Replace ''/auth/login'')"
proof (induction as arbitrary: g)
  case Nil
  then show ?case by simp
next
  case (Cons a as)
  have "navigations_of (AuthGuard_run (guard_of (AuthGuard_observe g a)) as)
          = replicate (entries (resolvedUnauthenticated a) as) (Replace ''/auth/login'')"
    using Cons.IH [of "guard_of (AuthGuard_observe g a)"]
    by (simp only: observe_lastDeps resolved_deps)
  then show ?case
    by (simp only: run_navigations_Cons observe_navigations) simp
qed

lemma observe_settled: "settled_guard g \<Longrightarrow> settled_guard (guard_of (AuthGuard_observe g a))"
  by (auto simp: settled_guard_def AuthGuard_observe_def AuthGuard_effect_def
      split: prod.splits option.splits)

lemma run_settled: "settled_guard g \<Longrightarrow> settled_guard (guard_of (AuthGuard_run g as))"
proof (induction as arbitrary: g)
  case Nil
  then show ?case by simp
next
  case (Cons a as)
  then show ?case by (simp only: run_guard_Cons observe_settled)
qed

lemma observe_failed_last:
  "settled_guard g \<Longrightarrow> status a = Failed \<Longrightarrow>
   last (views_of (AuthGuard_observe g a)) = (if isAuthenticated a then Wrapped else PleaseLogIn)"
  by (auto simp: settled_guard_def AuthGuard_observe_def AuthGuard_effect_def
      AuthGuard_render_def split: prod.splits option.splits)

lemma run_snoc_views:
  "views_of (AuthGuard_run g (as @ [a]))
     = views_of (AuthGuard_run g as)
       @ views_of (AuthGuard_observe (guard_of (AuthGuard_run g as)) a)"
proof (induction as arbitrary: g)
  case Nil
  show ?case by (simp split: prod.splits)
next
  case (Cons b bs)
  show ?case
    by (simp only: append_Cons run_views_Cons run_guard_Cons Cons.IH append_assoc)
qed

lemma observe_views_nonempty: "views_of (AuthGuard_observe g a) \<noteq> []"
  by (simp add: AuthGuard_observe_def split: prod.splits)

text \<open>
  C5, as the spec states it, fails. A login that is rejected while a session exists
  leaves the store with status \<open>failed\<close> and \<open>isAuthenticated\<close> still true; a guard
  mounted on that state shows the placeholder and then the wrapped view.
\<close>

theorem failed_renders_wrapped_counterexample:
  "status (dispatchAll initialState
      [LoginFulfilled \<lparr>payload_user_field = Some scenarioUser\<rparr>, LoginPending,
       LoginRejected (Some ''Rejected'')]) = Failed
   \<and> views_of (AuthGuard_run mounting
        [dispatchAll initialState
           [LoginFulfilled \<lparr>payload_user_field = Some scenarioUser\<rparr>, LoginPending,
            LoginRejected (Some ''Rejected'')]])
       = [Checking, Wrapped]"
  by (simp add: dispatchAll_def initialState_def loginUser_fulfilled_def loginUser_pending_def
      loginUser_rejected_def mounting_def AuthGuard_observe_def AuthGuard_effect_def
      AuthGuard_render_def)

text \<open>
  C5, amended. For every state with status \<open>failed\<close>, and whatever the guard has
  observed since it was mounted, the view the guard ends on (once its effect has run)
  is the unauthorized view when \<open>isAuthenticated\<close> is false and the wrapped view when
  it is true.
\<close>

theorem failed_view_follows_isAuthenticated:
  assumes "status a = Failed"
  shows "last (views_of (AuthGuard_run mounting (as @ [a])))
           = (if isAuthenticated a then Wrapped else PleaseLogIn)"
proof -
  have "settled_guard mounting"
    by (simp add: settled_guard_def mounting_def)
  then have s: "settled_guard (guard_of (AuthGuard_run mounting as))"
    by (rule run_settled)
  show ?thesis
    by (simp only: run_snoc_views last_append observe_views_nonempty if_False
        observe_failed_last [OF s assms])
qed

theorem failed_view_follows_isAuthenticated_witness:
  "status (authReducer initialState (CheckRejected None)) = Failed
   \<and> last (views_of (AuthGuard_run mounting
        ([authReducer initialState CheckPending]
         @ [authReducer initialState (CheckRejected None)])))
       = PleaseLogIn"
  using failed_view_follows_isAuthenticated
    [of "authReducer initialState (CheckRejected None)"
        "[authReducer initialState CheckPending]"]
  by (simp add: checkAuthStatus_rejected_def)

text \<open>
  C6. Over every sequence of store states a guard observes from its mount on, the
  navigation calls of its effect are exactly one \<open>replace\<close> to the login route for
  each time the sequence enters the state (\<open>succeeded\<close>, not authenticated): none while
  it stays there, and never a \<open>push\<close>.
\<close>

theorem one_replace_per_entry:
  "navigations_of (AuthGuard_run mounting as)
     = replicate (entries False as) (Replace ''/auth/login'')"
  using run_navigations [of mounting as] by (simp add: mounting_def)

text \<open>
  C7. For every state with status \<open>loading\<close>, whatever \<open>isAuthenticated\<close> is and
  whatever the guard has rendered before, the guard returns the placeholder, and
  neither its effect nor the whole render pass makes a navigation call.
\<close>

theorem loading_shows_placeholder:
  assumes "status a = Loading"
  shows "AuthGuard_render a g = Checking
         \<and> views_of (AuthGuard_observe g a) = [Checking]
         \<and> navigations_of (AuthGuard_observe g a) = []
         \<and> snd (AuthGuard_effect a g) = []"
  using assms
  by (simp add: AuthGuard_observe_def AuthGuard_effect_def AuthGuard_render_def)

theorem loading_shows_placeholder_witness:
  "status (authReducer (authReducer initialState (SetAuthenticated True)) CheckPending) = Loading
   \<and> AuthGuard_render
        (authReducer (authReducer initialState (SetAuthenticated True)) CheckPending) mounting
       = Checking
   \<and> navigations_of (AuthGuard_observe mounting
        (authReducer (authReducer initialState (SetAuthenticated True)) CheckPending)) = []"
  using loading_shows_placeholder
    [of "authReducer (authReducer initialState (SetAuthenticated True)) CheckPending" mounting]
  by (simp add: checkAuthStatus_pending_def)

section \<open>Properties of the shared status check\<close>

lemma joining_call:
  "authCheckPromise cl = Some p \<Longrightarrow>
     requests (checkAuthStatus_call c cl) = requests cl
   \<and> authCheckPromise (checkAuthStatus_call c cl) = Some p"
  by (simp add: checkAuthStatus_call_def)

text \<open>While a request is outstanding, further calls make no request of their own.\<close>

lemma calls_while_outstanding:
  "authCheckPromise cl = Some p \<Longrightarrow>
     requests (foldl (\<lambda>k c. checkAuthStatus_call c k) cl cs) = requests cl
   \<and> authCheckPromise (foldl (\<lambda>k c. checkAuthStatus_call c k) cl cs) = Some p"
proof (induction cs arbitrary: cl)
  case Nil
  then show ?case by simp
next
  case (Cons c cs)
  from joining_call [OF Cons.prems, of c] Cons.IH [of "checkAuthStatus_call c cl"]
  show ?case by simp
qed

text \<open>
  C1 at two calls. Caller 0 starts the check and caller 1 joins it while it is
  outstanding; one request is made. When the backend answers with a session for the
  scenario's user, caller 0 fulfils with the body and caller 1 with the response
  object around it. Dispatched in that order, the first \<open>fulfilled\<close> action
  authenticates the store and the second one takes the session away again.
\<close>

theorem joined_caller_gets_response_object:
  "requests (checkAuthStatus_call 1 (checkAuthStatus_call 0 newClient)) = 1
   \<and> fst (settle 0
        (Resolved \<lparr>data = \<lparr>authenticated = True, me_user = Some scenarioUser\<rparr>,
                   http_status = 200\<rparr>)
        (checkAuthStatus_call 1 (checkAuthStatus_call 0 newClient)))
       = [(0, Return (Body \<lparr>authenticated = True, me_user = Some scenarioUser\<rparr>)),
          (1, Return (Response
                \<lparr>data = \<lparr>authenticated = True, me_user = Some scenarioUser\<rparr>,
                 http_status = 200\<rparr>))]
   \<and> isAuthenticated (dispatchAll initialState
        [CheckPending, CheckPending,
         CheckFulfilled (Body \<lparr>authenticated = True, me_user = Some scenarioUser\<rparr>)])
       = True
   \<and> isAuthenticated (dispatchAll initialState
        [CheckPending, CheckPending,
         CheckFulfilled (Body \<lparr>authenticated = True, me_user = Some scenarioUser\<rparr>),
         CheckFulfilled (Response
            \<lparr>data = \<lparr>authenticated = True, me_user = Some scenarioUser\<rparr>,
             http_status = 200\<rparr>)])
       = False
   \<and> user (dispatchAll initialState
        [CheckPending, CheckPending,
         CheckFulfilled (Body \<lparr>authenticated = True, me_user = Some scenarioUser\<rparr>),
         CheckFulfilled (Response
            \<lparr>data = \<lparr>authenticated = True, me_user = Some scenarioUser\<rparr>,
             http_status = 200\<rparr>)])
       = None"
  by (simp add: checkAuthStatus_call_def newClient_def settle_def dispatchAll_def
      initialState_def checkAuthStatus_pending_def checkAuthStatus_fulfilled_def)

end
